theory Spec2Isabelle
  imports Complex_Main
begin

section \<open>The thermal LED controller of hosts/dragon/dynamic_led.py\<close>

text \<open>
  The script is one endless loop:
  \<^verbatim>\<open>
  while True:
      status = json.loads(subprocess.check_output(
                 ['liquidctl', '--match', 'h100i', 'status', '--json']))
      liquid_temp = status[0]['status'][0]['value']
      color = '0080ff' if liquid_temp < 40 else 'ff0000'
      subprocess.run(['liquidctl', '--match', 'h100i', 'set', 'led', 'color', 'fixed', color])
      time.sleep(60)
  \<close>
  Every exception Python can raise on the way is a value of \<open>error\<close>; the calls that touch
  the outside world are recorded, in order, as a list of \<open>event\<close>s.
\<close>

subsection \<open>Python values\<close>

text \<open>
  A Python float is its exact value (every finite double is a rational), one of the two
  infinities, or NaN. \<open>json.loads\<close> produces all four: it accepts the literals
  \<^verbatim>\<open>NaN\<close>, \<^verbatim>\<open>Infinity\<close> and \<^verbatim>\<open>-Infinity\<close>.
\<close>

datatype pyfloat = Fin rat | PInf | NInf | NaN

text \<open>
  What \<open>json.loads\<close> can return: \<open>None\<close>, a bool, an int of any size, a float, a str,
  a list, or a dict with str keys (an association list read with \<open>map_of\<close>).
\<close>

datatype pyval =
    PNone
  | PBool bool
  | PInt int
  | PFloat pyfloat
  | PStr string
  | PList "pyval list"
  | PDict "(string \<times> pyval) list"

datatype error =
    CalledProcessError int
  | OSError
  | JSONDecodeError
  | IndexError
  | KeyError
  | TypeError

subsection \<open>Comparison of floats\<close>

text \<open>IEEE comparison as Python has it: every comparison with NaN is false.\<close>

fun float_lt :: "pyfloat \<Rightarrow> pyfloat \<Rightarrow> bool" where
  "float_lt NaN y = False"
| "float_lt x NaN = False"
| "float_lt x NInf = False"
| "float_lt PInf y = False"
| "float_lt NInf y = True"
| "float_lt (Fin a) PInf = True"
| "float_lt (Fin a) (Fin b) = (a < b)"

fun float_ge :: "pyfloat \<Rightarrow> pyfloat \<Rightarrow> bool" where
  "float_ge NaN y = False"
| "float_ge x NaN = False"
| "float_ge x NInf = True"
| "float_ge PInf y = True"
| "float_ge NInf y = False"
| "float_ge (Fin a) PInf = False"
| "float_ge (Fin a) (Fin b) = (a \<ge> b)"

text \<open>
  \<open>x < k\<close> for an int literal \<open>k\<close>. A bool is an int (\<open>True\<close> is 1), a float is compared
  with the int exactly, and every other type raises \<open>TypeError\<close>.
\<close>

fun py_lt :: "pyval \<Rightarrow> int \<Rightarrow> error + bool" where
  "py_lt (PBool b) k = Inr ((if b then 1 else 0) < k)"
| "py_lt (PInt i) k = Inr (i < k)"
| "py_lt (PFloat x) k = Inr (float_lt x (Fin (of_int k)))"
| "py_lt PNone k = Inl TypeError"
| "py_lt (PStr s) k = Inl TypeError"
| "py_lt (PList xs) k = Inl TypeError"
| "py_lt (PDict d) k = Inl TypeError"

subsection \<open>Subscripts\<close>

text \<open>
  \<open>x[i]\<close> for a non-negative int \<open>i\<close>. A list or str out of range raises \<open>IndexError\<close>;
  a dict from JSON has only str keys, so an int key raises \<open>KeyError\<close>; anything else is
  not subscriptable.
\<close>

fun getitem_int :: "pyval \<Rightarrow> nat \<Rightarrow> error + pyval" where
  "getitem_int (PList xs) i = (if i < length xs then Inr (xs ! i) else Inl IndexError)"
| "getitem_int (PStr s) i = (if i < length s then Inr (PStr [s ! i]) else Inl IndexError)"
| "getitem_int (PDict d) i = Inl KeyError"
| "getitem_int PNone i = Inl TypeError"
| "getitem_int (PBool b) i = Inl TypeError"
| "getitem_int (PInt n) i = Inl TypeError"
| "getitem_int (PFloat x) i = Inl TypeError"

text \<open>
  \<open>x[k]\<close> for a str \<open>k\<close>. Only a dict takes a str key; a list or str raises \<open>TypeError\<close>
  (indices must be integers), as does anything not subscriptable.
\<close>

fun getitem_str :: "pyval \<Rightarrow> string \<Rightarrow> error + pyval" where
  "getitem_str (PDict d) k = (case map_of d k of None \<Rightarrow> Inl KeyError | Some v \<Rightarrow> Inr v)"
| "getitem_str (PList xs) k = Inl TypeError"
| "getitem_str (PStr s) k = Inl TypeError"
| "getitem_str PNone k = Inl TypeError"
| "getitem_str (PBool b) k = Inl TypeError"
| "getitem_str (PInt n) k = Inl TypeError"
| "getitem_str (PFloat x) k = Inl TypeError"

subsection \<open>The two steps that compute\<close>

text \<open>\<^verbatim>\<open>liquid_temp = status[0]['status'][0]['value']\<close>\<close>

definition liquid_temp :: "pyval \<Rightarrow> error + pyval" where
  "liquid_temp status =
     (case getitem_int status 0 of Inl e \<Rightarrow> Inl e | Inr block \<Rightarrow>
      (case getitem_str block ''status'' of Inl e \<Rightarrow> Inl e | Inr entries \<Rightarrow>
       (case getitem_int entries 0 of Inl e \<Rightarrow> Inl e | Inr entry \<Rightarrow>
        getitem_str entry ''value'')))"

text \<open>\<^verbatim>\<open>color = '0080ff' if liquid_temp < 40 else 'ff0000'\<close>\<close>

definition color :: "pyval \<Rightarrow> error + string" where
  "color t =
     (case py_lt t 40 of Inl e \<Rightarrow> Inl e
      | Inr b \<Rightarrow> Inr (if b then ''0080ff'' else ''ff0000''))"

subsection \<open>The outside world\<close>

text \<open>
  Starting a process either fails (the program is missing or not executable: \<open>OSError\<close>)
  or the process runs and exits with a return code and its standard output.
\<close>

datatype proc_result = SpawnFailed | Exited int string

type_synonym world = "string list \<Rightarrow> proc_result"

datatype event = Call "string list" | Sleep nat

text \<open>\<open>subprocess.check_output\<close> raises \<open>CalledProcessError\<close> on a nonzero return code.\<close>

definition check_output :: "world \<Rightarrow> string list \<Rightarrow> error + string" where
  "check_output w argv =
     (case w argv of
        SpawnFailed \<Rightarrow> Inl OSError
      | Exited rc out \<Rightarrow> if rc \<noteq> 0 then Inl (CalledProcessError rc) else Inr out)"

text \<open>
  \<open>subprocess.run\<close> is called without \<open>check=True\<close>: it returns the completed process,
  whatever its return code (here: the return code).
\<close>

definition run :: "world \<Rightarrow> string list \<Rightarrow> error + int" where
  "run w argv =
     (case w argv of
        SpawnFailed \<Rightarrow> Inl OSError
      | Exited rc out \<Rightarrow> Inr rc)"

definition query_argv :: "string list" where
  "query_argv = [''liquidctl'', ''--match'', ''h100i'', ''status'', ''--json'']"

definition set_argv :: "string \<Rightarrow> string list" where
  "set_argv c = [''liquidctl'', ''--match'', ''h100i'', ''set'', ''led'', ''color'', ''fixed'', c]"

subsection \<open>One cycle, and the loop\<close>

text \<open>
  The body of the loop: the events it performs and how it ends (\<open>Inl\<close>: the exception that
  leaves the loop; \<open>Inr\<close>: the body ran to its end). \<open>json.loads\<close> is the parameter
  \<open>loads\<close>, with \<open>None\<close> for text it rejects.
\<close>

definition cycle :: "(string \<Rightarrow> pyval option) \<Rightarrow> world \<Rightarrow> event list \<times> (error + unit)" where
  "cycle loads w =
     (case check_output w query_argv of
        Inl e \<Rightarrow> ([Call query_argv], Inl e)
      | Inr out \<Rightarrow>
     (case loads out of
        None \<Rightarrow> ([Call query_argv], Inl JSONDecodeError)
      | Some status \<Rightarrow>
     (case liquid_temp status of
        Inl e \<Rightarrow> ([Call query_argv], Inl e)
      | Inr t \<Rightarrow>
     (case color t of
        Inl e \<Rightarrow> ([Call query_argv], Inl e)
      | Inr c \<Rightarrow>
     (case run w (set_argv c) of
        Inl e \<Rightarrow> ([Call query_argv, Call (set_argv c)], Inl e)
      | Inr rc \<Rightarrow> ([Call query_argv, Call (set_argv c), Sleep 60], Inr ()))))))"

text \<open>
  \<open>while True\<close>: the world of cycle \<open>n\<close> is \<open>ws n\<close>. The loop has no normal exit; it
  returns only with the exception of the first failing cycle, the number of that cycle and
  all events so far. A loop that never fails is \<open>None\<close>.
\<close>

partial_function (option) main_loop ::
  "(string \<Rightarrow> pyval option) \<Rightarrow> (nat \<Rightarrow> world) \<Rightarrow> nat \<Rightarrow> event list \<Rightarrow> (error \<times> nat \<times> event list) option"
where
  "main_loop loads ws n tr =
     (case cycle loads (ws n) of
        (evs, Inl e) \<Rightarrow> Some (e, n, tr @ evs)
      | (evs, Inr u) \<Rightarrow> main_loop loads ws (Suc n) (tr @ evs))"

text \<open>The colours handed to the set command in a list of events.\<close>

fun set_calls :: "event list \<Rightarrow> string list list" where
  "set_calls [] = []"
| "set_calls (Call argv # evs) =
     (if argv = query_argv then set_calls evs else argv # set_calls evs)"
| "set_calls (Sleep s # evs) = set_calls evs"

definition hex_digit :: "char \<Rightarrow> bool" where
  "hex_digit ch = (ch \<in> set ''0123456789abcdefABCDEF'')"

subsection \<open>Sample inputs\<close>

text \<open>Output texts of the status query, and the documents \<open>json.loads\<close> reads from them.\<close>

definition out_empty :: string where
  \<open>out_empty = ''[]''\<close>

definition out_no_entries :: string where
  \<open>out_no_entries = ''[{"status": []}]''\<close>

definition out_cool :: string where
  \<open>out_cool = ''[{"status": [{"value": 35.5}]}]''\<close>

definition out_threshold :: string where
  \<open>out_threshold = ''[{"status": [{"value": 40.0}]}]''\<close>

definition out_hot :: string where
  \<open>out_hot = ''[{"status": [{"value": 55.75}]}]''\<close>

definition out_nan :: string where
  \<open>out_nan = ''[{"status": [{"value": NaN}]}]''\<close>

definition out_true :: string where
  \<open>out_true = ''[{"status": [{"value": true}]}]''\<close>

definition out_null :: string where
  \<open>out_null = ''[{"status": [{"value": null}]}]''\<close>

definition out_h100i :: string where
  \<open>out_h100i = ''[{"bus": "hid", "description": "Corsair H100i", "status": [{"key": "Liquid temperature", "value": 35.5, "unit": "C"}, {"key": "Fan 1 speed", "value": 1200, "unit": "rpm"}]}, {"status": [{"value": 90}]}]''\<close>

definition out_garbage :: string where
  \<open>out_garbage = ''No devices found''\<close>

definition doc :: "pyval \<Rightarrow> pyval" where
  "doc t = PList [PDict [(''status'', PList [PDict [(''value'', t)]])]]"

definition doc_h100i :: pyval where
  "doc_h100i =
     PList [PDict [(''bus'', PStr ''hid''),
                   (''description'', PStr ''Corsair H100i''),
                   (''status'',
                      PList [PDict [(''key'', PStr ''Liquid temperature''),
                                    (''value'', PFloat (Fin (71 / 2))),
                                    (''unit'', PStr ''C'')],
                             PDict [(''key'', PStr ''Fan 1 speed''),
                                    (''value'', PInt 1200),
                                    (''unit'', PStr ''rpm'')]])],
            PDict [(''status'', PList [PDict [(''value'', PInt 90)]])]]"

definition sample_loads :: "string \<Rightarrow> pyval option" where
  "sample_loads = map_of
     [(out_empty, PList []),
      (out_no_entries, PList [PDict [(''status'', PList [])]]),
      (out_cool, doc (PFloat (Fin (71 / 2)))),
      (out_threshold, doc (PFloat (Fin 40))),
      (out_hot, doc (PFloat (Fin (223 / 4)))),
      (out_nan, doc (PFloat NaN)),
      (out_true, doc (PBool True)),
      (out_null, doc PNone),
      (out_h100i, doc_h100i)]"

text \<open>A world that answers the status query with \<open>q\<close> and every other command with \<open>s\<close>.\<close>

definition sample_world :: "proc_result \<Rightarrow> proc_result \<Rightarrow> world" where
  "sample_world q s = (\<lambda>argv. if argv = query_argv then q else s)"

text \<open>The worlds of a loop whose cycle 0 sees \<open>w0\<close> and whose later cycles see \<open>w\<close>.\<close>

definition first_then :: "world \<Rightarrow> world \<Rightarrow> nat \<Rightarrow> world" where
  "first_then w0 w n = (if n = 0 then w0 else w)"

text \<open>
  Cycle 0: the cooler is at 35.5 degrees and the set command exits with 1.
  From cycle 1 on: the status query exits with 2.
\<close>

definition flaky_worlds :: "nat \<Rightarrow> world" where
  "flaky_worlds =
     first_then (sample_world (Exited 0 out_cool) (Exited 1 []))
                (sample_world (Exited 2 []) (Exited 0 []))"

text \<open>Two cycles with the cooler at 35.5 degrees; from cycle 2 on the query prints no JSON.\<close>

definition steady_worlds :: "nat \<Rightarrow> world" where
  "steady_worlds n =
     (if n < 2 then sample_world (Exited 0 out_cool) (Exited 0 [])
      else sample_world (Exited 0 out_garbage) (Exited 0 []))"

lemmas sample_defs =
  out_empty_def out_no_entries_def out_cool_def out_threshold_def out_hot_def out_nan_def
  out_true_def out_null_def out_h100i_def out_garbage_def doc_def doc_h100i_def
  sample_loads_def sample_world_def first_then_def flaky_worlds_def steady_worlds_def

lemmas step_defs =
  cycle_def check_output_def run_def liquid_temp_def color_def query_argv_def set_argv_def

section \<open>Properties\<close>

subsection \<open>The loop, one cycle at a time\<close>

lemma main_loop_raises:
  "cycle loads (ws n) = (evs, Inl e) \<Longrightarrow> main_loop loads ws n tr = Some (e, n, tr @ evs)"
  by (subst main_loop.simps) simp

lemma main_loop_continues:
  "cycle loads (ws n) = (evs, Inr u) \<Longrightarrow>
   main_loop loads ws n tr = main_loop loads ws (Suc n) (tr @ evs)"
  by (subst main_loop.simps) simp

text \<open>
  Started at cycle \<open>m\<close>, the loop ends at the first cycle \<open>n\<close> that raises, with that
  exception.
\<close>

lemma main_loop_first_failure:
  assumes "m \<le> n"
    and "\<forall>k. m \<le> k \<and> k < n \<longrightarrow> snd (cycle loads (ws k)) = Inr ()"
    and "snd (cycle loads (ws n)) = Inl e"
  shows "\<exists>tr'. main_loop loads ws m tr = Some (e, n, tr')"
  using assms
proof (induction "n - m" arbitrary: m tr)
  case 0
  then have "m = n" by simp
  obtain evs where "cycle loads (ws n) = (evs, Inl e)"
    using "0.prems"(3) by (cases "cycle loads (ws n)") simp
  then show ?case
    using \<open>m = n\<close> main_loop_raises by blast
next
  case (Suc d)
  then have lt: "m < n" by simp
  then have "snd (cycle loads (ws m)) = Inr ()"
    using Suc.prems(2) by simp
  then obtain evs where c: "cycle loads (ws m) = (evs, Inr ())"
    by (cases "cycle loads (ws m)") simp
  have d: "d = n - Suc m"
    using Suc.hyps(2) by simp
  have "\<exists>tr'. main_loop loads ws (Suc m) (tr @ evs) = Some (e, n, tr')"
    using Suc.hyps(1) [OF d, of "tr @ evs"] lt Suc.prems(2,3) by simp
  moreover have "main_loop loads ws m tr = main_loop loads ws (Suc m) (tr @ evs)"
    using c by (rule main_loop_continues)
  ultimately show ?case by simp
qed

text \<open>
  The same run with its events: those before it, then the events of the cycles \<open>m\<close> to
  \<open>n\<close>, cycle after cycle.
\<close>

lemma main_loop_trace:
  assumes "m \<le> n"
    and "\<forall>k. m \<le> k \<and> k < n \<longrightarrow> snd (cycle loads (ws k)) = Inr ()"
    and "snd (cycle loads (ws n)) = Inl e"
  shows "main_loop loads ws m tr =
           Some (e, n, tr @ concat (map (\<lambda>k. fst (cycle loads (ws k))) [m..<Suc n]))"
  using assms
proof (induction "n - m" arbitrary: m tr)
  case 0
  then have "m = n" by simp
  have c: "cycle loads (ws n) = (fst (cycle loads (ws n)), Inl e)"
    using "0.prems"(3) by (cases "cycle loads (ws n)") simp
  have "main_loop loads ws n tr = Some (e, n, tr @ fst (cycle loads (ws n)))"
    using c by (rule main_loop_raises)
  then show ?case
    using \<open>m = n\<close> by simp
next
  case (Suc d)
  then have lt: "m < n" by simp
  then have "snd (cycle loads (ws m)) = Inr ()"
    using Suc.prems(2) by simp
  then have c: "cycle loads (ws m) = (fst (cycle loads (ws m)), Inr ())"
    by (cases "cycle loads (ws m)") simp
  have d: "d = n - Suc m"
    using Suc.hyps(2) by simp
  have "main_loop loads ws (Suc m) (tr @ fst (cycle loads (ws m))) =
      Some (e, n, (tr @ fst (cycle loads (ws m))) @
        concat (map (\<lambda>k. fst (cycle loads (ws k))) [Suc m..<Suc n]))"
    using Suc.hyps(1) [OF d, of "tr @ fst (cycle loads (ws m))"] lt Suc.prems(2,3) by simp
  moreover have "main_loop loads ws m tr =
      main_loop loads ws (Suc m) (tr @ fst (cycle loads (ws m)))"
    using c by (rule main_loop_continues)
  moreover have "[m..<Suc n] = m # [Suc m..<Suc n]"
    using lt by (simp add: upt_conv_Cons)
  ultimately show ?case by simp
qed

subsection \<open>The outcomes of a cycle\<close>

lemma cycle_query_fails:
  "check_output w query_argv = Inl e \<Longrightarrow> cycle loads w = ([Call query_argv], Inl e)"
  by (simp add: cycle_def)

lemma cycle_unparsable:
  "check_output w query_argv = Inr out \<Longrightarrow> loads out = None \<Longrightarrow>
   cycle loads w = ([Call query_argv], Inl JSONDecodeError)"
  by (simp add: cycle_def)

lemma cycle_extract_fails:
  "check_output w query_argv = Inr out \<Longrightarrow> loads out = Some status \<Longrightarrow>
   liquid_temp status = Inl e \<Longrightarrow> cycle loads w = ([Call query_argv], Inl e)"
  by (simp add: cycle_def)

lemma cycle_compare_fails:
  "check_output w query_argv = Inr out \<Longrightarrow> loads out = Some status \<Longrightarrow>
   liquid_temp status = Inr t \<Longrightarrow> color t = Inl e \<Longrightarrow>
   cycle loads w = ([Call query_argv], Inl e)"
  by (simp add: cycle_def)

lemma cycle_applies:
  "check_output w query_argv = Inr out \<Longrightarrow> loads out = Some status \<Longrightarrow>
   liquid_temp status = Inr t \<Longrightarrow> color t = Inr c \<Longrightarrow>
   cycle loads w =
     (case run w (set_argv c) of
        Inl e \<Rightarrow> ([Call query_argv, Call (set_argv c)], Inl e)
      | Inr rc \<Rightarrow> ([Call query_argv, Call (set_argv c), Sleep 60], Inr ()))"
  by (simp add: cycle_def)

lemma color_cases: "color t = Inr c \<Longrightarrow> c = ''0080ff'' \<or> c = ''ff0000''"
  by (auto simp: color_def split: sum.splits if_splits)

lemma set_argv_not_query: "set_argv c \<noteq> query_argv"
  by (simp add: set_argv_def query_argv_def)

lemma cycle_events:
  "fst (cycle loads w) = [Call query_argv] \<or>
   (\<exists>t c. color t = Inr c \<and>
      (fst (cycle loads w) = [Call query_argv, Call (set_argv c)] \<or>
       fst (cycle loads w) = [Call query_argv, Call (set_argv c), Sleep 60]))"
  unfolding cycle_def by (auto split: sum.splits option.splits)

text \<open>The set commands of a cycle that extracts the reading \<open>t\<close> are decided by \<open>t\<close>.\<close>

lemma set_calls_cycle:
  assumes "check_output w query_argv = Inr out" and "loads out = Some status"
    and "liquid_temp status = Inr t"
  shows "set_calls (fst (cycle loads w)) =
           (case color t of Inl e \<Rightarrow> [] | Inr c \<Rightarrow> [set_argv c])"
proof (cases "color t")
  case (Inl e)
  then show ?thesis
    using cycle_compare_fails [of w out loads status t e] assms by simp
next
  case (Inr c)
  then show ?thesis
    using cycle_applies [of w out loads status t c] assms set_argv_not_query [of c]
    by (cases "run w (set_argv c)") simp_all
qed

lemma float_ge_not_lt: "float_ge x y \<Longrightarrow> \<not> float_lt x y"
  by (cases x; cases y) simp_all

lemma liquid_temp_well_formed:
  assumes "status = PList (PDict b # blocks)"
    and "map_of b ''status'' = Some (PList (PDict e # entries))"
    and "map_of e ''value'' = Some v"
  shows "liquid_temp status = Inr v"
  using assms by (simp add: liquid_temp_def)

subsection \<open>Specified behaviour\<close>

text \<open>
  C1. A float reading below 40.0 decides \<open>0080ff\<close>, a reading of 40.0 or more decides
  \<open>ff0000\<close>, and exactly 40.0 is on the red side. The same holds for a reading that
  the status query prints as an integer.
\<close>

theorem color_threshold:
  "(float_lt x (Fin 40) \<longrightarrow> color (PFloat x) = Inr ''0080ff'') \<and>
   (float_ge x (Fin 40) \<longrightarrow> color (PFloat x) = Inr ''ff0000'') \<and>
   color (PFloat (Fin 40)) = Inr ''ff0000'' \<and>
   (i < 40 \<longrightarrow> color (PInt i) = Inr ''0080ff'') \<and>
   (i \<ge> 40 \<longrightarrow> color (PInt i) = Inr ''ff0000'')"
  using float_ge_not_lt [of x "Fin 40"] by (simp add: color_def)

theorem color_threshold_witness:
  "float_lt (Fin (71 / 2)) (Fin 40) \<and> color (PFloat (Fin (71 / 2))) = Inr ''0080ff'' \<and>
   float_ge (Fin (223 / 4)) (Fin 40) \<and> color (PFloat (Fin (223 / 4))) = Inr ''ff0000'' \<and>
   float_ge (Fin 40) (Fin 40) \<and> color (PFloat (Fin 40)) = Inr ''ff0000'' \<and>
   float_ge PInf (Fin 40) \<and> color (PFloat PInf) = Inr ''ff0000'' \<and>
   float_lt NInf (Fin 40) \<and> color (PFloat NInf) = Inr ''0080ff'' \<and>
   (39::int) < 40 \<and> color (PInt 39) = Inr ''0080ff'' \<and>
   (40::int) \<ge> 40 \<and> color (PInt 40) = Inr ''ff0000''"
  using color_threshold [of "Fin (71 / 2)" 39] color_threshold [of "Fin (223 / 4)" 40]
    color_threshold [of PInf 40] color_threshold [of NInf 40]
  by simp

text \<open>
  C2, as the code has it. A status query that exits nonzero raises
  \<open>CalledProcessError\<close>: the cycle ends after the query and the loop ends on that cycle
  (also counted from the start of the loop, when every earlier cycle ran to its end).
  The return code of the set command is not looked at: whatever it is, the cycle goes on
  to the pause and the loop to the next cycle.
\<close>

theorem nonzero_exit:
  "(ws n query_argv = Exited rc out \<and> rc \<noteq> 0 \<longrightarrow>
      cycle loads (ws n) = ([Call query_argv], Inl (CalledProcessError rc)) \<and>
      main_loop loads ws n tr = Some (CalledProcessError rc, n, tr @ [Call query_argv]) \<and>
      ((\<forall>k. 0 \<le> k \<and> k < n \<longrightarrow> snd (cycle loads (ws k)) = Inr ()) \<longrightarrow>
         (\<exists>tr'. main_loop loads ws 0 [] = Some (CalledProcessError rc, n, tr')))) \<and>
   (check_output (ws n) query_argv = Inr out' \<and> loads out' = Some status \<and>
    liquid_temp status = Inr t \<and> color t = Inr c \<and>
    ws n (set_argv c) = Exited rc' out'' \<longrightarrow>
      cycle loads (ws n) = ([Call query_argv, Call (set_argv c), Sleep 60], Inr ()) \<and>
      main_loop loads ws n tr =
        main_loop loads ws (Suc n) (tr @ [Call query_argv, Call (set_argv c), Sleep 60]))"
proof (intro conjI impI)
  assume a: "ws n query_argv = Exited rc out \<and> rc \<noteq> 0"
  then have "check_output (ws n) query_argv = Inl (CalledProcessError rc)"
    by (simp add: check_output_def)
  then show c: "cycle loads (ws n) = ([Call query_argv], Inl (CalledProcessError rc))"
    by (rule cycle_query_fails)
  show "main_loop loads ws n tr = Some (CalledProcessError rc, n, tr @ [Call query_argv])"
    using c by (rule main_loop_raises)
  assume "\<forall>k. 0 \<le> k \<and> k < n \<longrightarrow> snd (cycle loads (ws k)) = Inr ()"
  then show "\<exists>tr'. main_loop loads ws 0 [] = Some (CalledProcessError rc, n, tr')"
    using main_loop_first_failure [of 0 n loads ws "CalledProcessError rc" "[]"] c by simp
next
  assume a: "check_output (ws n) query_argv = Inr out' \<and> loads out' = Some status \<and>
    liquid_temp status = Inr t \<and> color t = Inr c \<and> ws n (set_argv c) = Exited rc' out''"
  then have "run (ws n) (set_argv c) = Inr rc'"
    by (simp add: run_def)
  then show c: "cycle loads (ws n) = ([Call query_argv, Call (set_argv c), Sleep 60], Inr ())"
    using a cycle_applies [of "ws n" out' loads status t c] by simp
  show "main_loop loads ws n tr =
          main_loop loads ws (Suc n) (tr @ [Call query_argv, Call (set_argv c), Sleep 60])"
    using c by (rule main_loop_continues)
qed

theorem nonzero_exit_witness:
  "flaky_worlds 1 query_argv = Exited 2 [] \<and> (2::int) \<noteq> 0 \<and>
   cycle sample_loads (flaky_worlds 1) = ([Call query_argv], Inl (CalledProcessError 2)) \<and>
   (\<exists>tr'. main_loop sample_loads flaky_worlds 0 [] = Some (CalledProcessError 2, 1, tr')) \<and>
   main_loop sample_loads flaky_worlds 1 [] = Some (CalledProcessError 2, 1, [Call query_argv]) \<and>
   check_output (flaky_worlds 0) query_argv = Inr out_cool \<and>
   sample_loads out_cool = Some (doc (PFloat (Fin (71 / 2)))) \<and>
   liquid_temp (doc (PFloat (Fin (71 / 2)))) = Inr (PFloat (Fin (71 / 2))) \<and>
   color (PFloat (Fin (71 / 2))) = Inr ''0080ff'' \<and>
   flaky_worlds 0 (set_argv ''0080ff'') = Exited 1 [] \<and>
   cycle sample_loads (flaky_worlds 0) =
     ([Call query_argv, Call (set_argv ''0080ff''), Sleep 60], Inr ())"
proof -
  have q: "flaky_worlds 1 query_argv = Exited 2 [] \<and> (2::int) \<noteq> 0"
    by (simp add: sample_defs)
  have a: "check_output (flaky_worlds 0) query_argv = Inr out_cool"
    by (simp add: sample_defs check_output_def)
  have b: "sample_loads out_cool = Some (doc (PFloat (Fin (71 / 2))))"
    by (simp add: sample_defs)
  have c: "liquid_temp (doc (PFloat (Fin (71 / 2)))) = Inr (PFloat (Fin (71 / 2)))"
    by (simp add: sample_defs liquid_temp_def)
  have d: "color (PFloat (Fin (71 / 2))) = Inr ''0080ff''"
    by (simp add: color_def)
  have e: "flaky_worlds 0 (set_argv ''0080ff'') = Exited 1 []"
    by (simp add: sample_defs set_argv_def query_argv_def)
  have "cycle sample_loads (flaky_worlds 0) =
      ([Call query_argv, Call (set_argv ''0080ff''), Sleep 60], Inr ())"
    by (simp add: sample_defs step_defs)
  then have f: "\<forall>k. 0 \<le> k \<and> k < 1 \<longrightarrow> snd (cycle sample_loads (flaky_worlds k)) = Inr ()"
    by simp
  show ?thesis
    using q a b c d e f
      nonzero_exit [of flaky_worlds 1 2 "[]" sample_loads "[]" out_cool
        "doc (PFloat (Fin (71 / 2)))" "PFloat (Fin (71 / 2))" "''0080ff''" 1 "[]"]
      nonzero_exit [of flaky_worlds 0 2 "[]" sample_loads "[]" out_cool
        "doc (PFloat (Fin (71 / 2)))" "PFloat (Fin (71 / 2))" "''0080ff''" 1 "[]"]
    by simp
qed

text \<open>
  C2, as stated, fails: in cycle 0 the set command exits with 1, and the cycle runs to its
  end; the loop ends only in cycle 1, on the failing status query.
\<close>

theorem set_command_exit_code_ignored:
  "flaky_worlds 0 (set_argv ''0080ff'') = Exited 1 [] \<and>
   cycle sample_loads (flaky_worlds 0) =
     ([Call query_argv, Call (set_argv ''0080ff''), Sleep 60], Inr ()) \<and>
   main_loop sample_loads flaky_worlds 0 [] =
     Some (CalledProcessError 2, 1,
           [Call query_argv, Call (set_argv ''0080ff''), Sleep 60, Call query_argv])"
proof -
  have c0: "cycle sample_loads (flaky_worlds 0) =
     ([Call query_argv, Call (set_argv ''0080ff''), Sleep 60], Inr ())"
    by (simp add: sample_defs step_defs)
  have c1: "cycle sample_loads (flaky_worlds (Suc 0)) =
     ([Call query_argv], Inl (CalledProcessError 2))"
    by (simp add: sample_defs step_defs)
  have "flaky_worlds 0 (set_argv ''0080ff'') = Exited 1 []"
    by (simp add: sample_defs set_argv_def query_argv_def)
  moreover have "main_loop sample_loads flaky_worlds 0 [] =
      main_loop sample_loads flaky_worlds (Suc 0)
        ([] @ [Call query_argv, Call (set_argv ''0080ff''), Sleep 60])"
    using c0 by (rule main_loop_continues)
  moreover have "main_loop sample_loads flaky_worlds (Suc 0)
        ([] @ [Call query_argv, Call (set_argv ''0080ff''), Sleep 60]) =
      Some (CalledProcessError 2, Suc 0,
        ([] @ [Call query_argv, Call (set_argv ''0080ff''), Sleep 60]) @ [Call query_argv])"
    using c1 by (rule main_loop_raises)
  ultimately show ?thesis
    using c0 by simp
qed

text \<open>
  C3. When the status query prints a document with no device block, or one whose first
  block has an empty \<open>status\<close> list, the subscript \<open>[0]\<close> raises \<open>IndexError\<close> (the
  malformed-output failure): the cycle calls nothing but the status query, and the loop
  ends on that cycle.
\<close>

theorem no_blocks_or_no_entries:
  assumes "check_output (ws n) query_argv = Inr out"
    and "loads out = Some status"
    and "status = PList [] \<or>
         (\<exists>b blocks. status = PList (PDict b # blocks) \<and> map_of b ''status'' = Some (PList []))"
  shows "cycle loads (ws n) = ([Call query_argv], Inl IndexError) \<and>
         set_calls (fst (cycle loads (ws n))) = [] \<and>
         main_loop loads ws n tr = Some (IndexError, n, tr @ [Call query_argv]) \<and>
         ((\<forall>k. 0 \<le> k \<and> k < n \<longrightarrow> snd (cycle loads (ws k)) = Inr ()) \<longrightarrow>
            (\<exists>tr'. main_loop loads ws 0 [] = Some (IndexError, n, tr')))"
proof -
  have "liquid_temp status = Inl IndexError"
    using assms(3) by (auto simp: liquid_temp_def)
  then have c: "cycle loads (ws n) = ([Call query_argv], Inl IndexError)"
    using cycle_extract_fails [of "ws n" out loads status IndexError] assms(1,2) by simp
  have "(\<forall>k. 0 \<le> k \<and> k < n \<longrightarrow> snd (cycle loads (ws k)) = Inr ()) \<longrightarrow>
            (\<exists>tr'. main_loop loads ws 0 [] = Some (IndexError, n, tr'))"
    using main_loop_first_failure [of 0 n loads ws IndexError "[]"] c by simp
  moreover have "main_loop loads ws n tr = Some (IndexError, n, tr @ [Call query_argv])"
    using c by (rule main_loop_raises)
  ultimately show ?thesis
    using c by simp
qed

theorem no_blocks_or_no_entries_witness:
  "check_output (first_then (sample_world (Exited 0 out_cool) (Exited 0 []))
                   (sample_world (Exited 0 out_empty) (Exited 0 [])) 1) query_argv = Inr out_empty \<and>
   sample_loads out_empty = Some (PList []) \<and>
   cycle sample_loads (sample_world (Exited 0 out_empty) (Exited 0 [])) =
     ([Call query_argv], Inl IndexError) \<and>
   (\<exists>tr'. main_loop sample_loads
            (first_then (sample_world (Exited 0 out_cool) (Exited 0 []))
               (sample_world (Exited 0 out_empty) (Exited 0 []))) 0 [] =
          Some (IndexError, 1, tr')) \<and>
   check_output (first_then (sample_world (Exited 0 out_no_entries) (Exited 0 []))
                   (sample_world (Exited 0 out_cool) (Exited 0 [])) 0) query_argv =
     Inr out_no_entries \<and>
   sample_loads out_no_entries = Some (PList [PDict [(''status'', PList [])]]) \<and>
   main_loop sample_loads
     (first_then (sample_world (Exited 0 out_no_entries) (Exited 0 []))
        (sample_world (Exited 0 out_cool) (Exited 0 []))) 0 [] =
     Some (IndexError, 0, [Call query_argv])"
proof -
  let ?ws = "first_then (sample_world (Exited 0 out_cool) (Exited 0 []))
               (sample_world (Exited 0 out_empty) (Exited 0 []))"
  let ?vs = "first_then (sample_world (Exited 0 out_no_entries) (Exited 0 []))
               (sample_world (Exited 0 out_cool) (Exited 0 []))"
  have a: "check_output (?ws 1) query_argv = Inr out_empty"
    by (simp add: sample_defs check_output_def)
  have b: "sample_loads out_empty = Some (PList [])"
    by (simp add: sample_defs)
  have "cycle sample_loads (?ws 0) =
      ([Call query_argv, Call (set_argv ''0080ff''), Sleep 60], Inr ())"
    by (simp add: sample_defs step_defs)
  then have c: "\<forall>k. 0 \<le> k \<and> k < 1 \<longrightarrow> snd (cycle sample_loads (?ws k)) = Inr ()"
    by simp
  have d: "check_output (?vs 0) query_argv = Inr out_no_entries"
    by (simp add: sample_defs check_output_def)
  have e: "sample_loads out_no_entries = Some (PList [PDict [(''status'', PList [])]])"
    by (simp add: sample_defs)
  have f: "?ws 1 = sample_world (Exited 0 out_empty) (Exited 0 [])"
    by (simp add: first_then_def)
  show ?thesis
    using a b c d e f
      no_blocks_or_no_entries [of ?ws 1 out_empty sample_loads "PList []" "[]"]
      no_blocks_or_no_entries [of ?vs 0 out_no_entries sample_loads
        "PList [PDict [(''status'', PList [])]]" "[]"]
    by simp
qed

text \<open>
  C4. When the status query exits nonzero, or prints text that \<open>json.loads\<close> rejects, or
  prints a document without the fields read from it, the cycle ends with that exception
  right after the query: the status query is its only call, and the set command is not
  called.
\<close>

theorem query_failure_skips_set:
  assumes "(w query_argv = Exited rc out \<and> rc \<noteq> 0) \<or>
           (check_output w query_argv = Inr out \<and> loads out = None) \<or>
           (check_output w query_argv = Inr out \<and> loads out = Some status \<and>
            liquid_temp status = Inl e)"
  shows "fst (cycle loads w) = [Call query_argv] \<and>
         set_calls (fst (cycle loads w)) = [] \<and>
         Call (set_argv c) \<notin> set (fst (cycle loads w)) \<and>
         (\<exists>e'. snd (cycle loads w) = Inl e')"
proof -
  have "\<exists>e'. cycle loads w = ([Call query_argv], Inl e')"
    using assms
  proof (elim disjE conjE)
    assume "w query_argv = Exited rc out" and "rc \<noteq> 0"
    then have "check_output w query_argv = Inl (CalledProcessError rc)"
      by (simp add: check_output_def)
    then show ?thesis
      using cycle_query_fails by blast
  next
    assume "check_output w query_argv = Inr out" and "loads out = None"
    then show ?thesis
      using cycle_unparsable by blast
  next
    assume "check_output w query_argv = Inr out" and "loads out = Some status"
      and "liquid_temp status = Inl e"
    then show ?thesis
      using cycle_extract_fails by blast
  qed
  then show ?thesis
    using set_argv_not_query [of c] by auto
qed

theorem query_failure_skips_set_witness:
  "sample_world (Exited 2 []) (Exited 0 []) query_argv = Exited 2 [] \<and> (2::int) \<noteq> 0 \<and>
   fst (cycle sample_loads (sample_world (Exited 2 []) (Exited 0 []))) = [Call query_argv] \<and>
   check_output (sample_world (Exited 0 out_garbage) (Exited 0 [])) query_argv = Inr out_garbage \<and>
   sample_loads out_garbage = None \<and>
   fst (cycle sample_loads (sample_world (Exited 0 out_garbage) (Exited 0 []))) =
     [Call query_argv] \<and>
   Call (set_argv ''ff0000'') \<notin>
     set (fst (cycle sample_loads (sample_world (Exited 0 out_garbage) (Exited 0 []))))"
proof -
  have a: "sample_world (Exited 2 []) (Exited 0 []) query_argv = Exited 2 [] \<and> (2::int) \<noteq> 0"
    by (simp add: sample_defs)
  have b: "check_output (sample_world (Exited 0 out_garbage) (Exited 0 [])) query_argv =
      Inr out_garbage"
    by (simp add: sample_defs check_output_def)
  have c: "sample_loads out_garbage = None"
    by (simp add: sample_defs)
  show ?thesis
    using a b c
      query_failure_skips_set [of "sample_world (Exited 2 []) (Exited 0 [])" 2 "[]"
        sample_loads PNone TypeError "''ff0000''"]
      query_failure_skips_set [of "sample_world (Exited 0 out_garbage) (Exited 0 [])" 0
        out_garbage sample_loads PNone TypeError "''ff0000''"]
    by (simp add: set_argv_not_query)
qed

text \<open>
  C5. The colour is a function of the reading alone. Take any two cycles, of one run or of
  two, with any worlds and any reader of the output: when both extract the same reading
  \<open>t\<close>, both hand the same colour to the set command, the one \<open>color t\<close> gives (and
  neither calls it when \<open>color t\<close> raises). A cycle has no other input: neither its
  number nor the events of earlier cycles reach it.
\<close>

theorem color_decision_pure:
  assumes "check_output w1 query_argv = Inr out1" and "loads1 out1 = Some status1"
    and "liquid_temp status1 = Inr t"
    and "check_output w2 query_argv = Inr out2" and "loads2 out2 = Some status2"
    and "liquid_temp status2 = Inr t"
  shows "set_calls (fst (cycle loads1 w1)) = set_calls (fst (cycle loads2 w2)) \<and>
         set_calls (fst (cycle loads1 w1)) =
           (case color t of Inl e \<Rightarrow> [] | Inr c \<Rightarrow> [set_argv c])"
  using set_calls_cycle [of w1 out1 loads1 status1 t] set_calls_cycle [of w2 out2 loads2 status2 t]
    assms by simp

theorem color_decision_pure_witness:
  "check_output (sample_world (Exited 0 out_cool) (Exited 0 [])) query_argv = Inr out_cool \<and>
   sample_loads out_cool = Some (doc (PFloat (Fin (71 / 2)))) \<and>
   liquid_temp (doc (PFloat (Fin (71 / 2)))) = Inr (PFloat (Fin (71 / 2))) \<and>
   check_output (sample_world (Exited 0 out_h100i) (Exited 1 [])) query_argv = Inr out_h100i \<and>
   sample_loads out_h100i = Some doc_h100i \<and>
   liquid_temp doc_h100i = Inr (PFloat (Fin (71 / 2))) \<and>
   set_calls (fst (cycle sample_loads (sample_world (Exited 0 out_cool) (Exited 0 [])))) =
     set_calls (fst (cycle sample_loads (sample_world (Exited 0 out_h100i) (Exited 1 [])))) \<and>
   set_calls (fst (cycle sample_loads (sample_world (Exited 0 out_cool) (Exited 0 [])))) =
     [set_argv ''0080ff'']"
proof -
  have a: "check_output (sample_world (Exited 0 out_cool) (Exited 0 [])) query_argv = Inr out_cool"
    by (simp add: sample_defs check_output_def)
  have b: "sample_loads out_cool = Some (doc (PFloat (Fin (71 / 2))))"
    by (simp add: sample_defs)
  have c: "liquid_temp (doc (PFloat (Fin (71 / 2)))) = Inr (PFloat (Fin (71 / 2)))"
    by (simp add: sample_defs liquid_temp_def)
  have d: "check_output (sample_world (Exited 0 out_h100i) (Exited 1 [])) query_argv = Inr out_h100i"
    by (simp add: sample_defs check_output_def)
  have e: "sample_loads out_h100i = Some doc_h100i"
    by (simp add: sample_defs)
  have f: "liquid_temp doc_h100i = Inr (PFloat (Fin (71 / 2)))"
    by (simp add: sample_defs liquid_temp_def)
  have g: "color (PFloat (Fin (71 / 2))) = Inr ''0080ff''"
    by (simp add: color_def)
  show ?thesis
    using a b c d e f g
      color_decision_pure [of "sample_world (Exited 0 out_cool) (Exited 0 [])" out_cool
        sample_loads "doc (PFloat (Fin (71 / 2)))" "PFloat (Fin (71 / 2))"
        "sample_world (Exited 0 out_h100i) (Exited 1 [])" out_h100i sample_loads doc_h100i]
    by auto
qed

text \<open>
  C6. For a document whose first block is an object with a \<open>status\<close> list whose first
  entry is an object with a \<open>value\<close>, the reading is that value. Nothing else of the
  document (other keys, later entries, later blocks) reaches the decision: the set command
  of the cycle is the one \<open>color\<close> gives for that value.
\<close>

theorem reads_first_value:
  assumes "status = PList (PDict b # blocks)"
    and "map_of b ''status'' = Some (PList (PDict e # entries))"
    and "map_of e ''value'' = Some v"
  shows "liquid_temp status = Inr v \<and>
         (check_output w query_argv = Inr out \<and> loads out = Some status \<longrightarrow>
            set_calls (fst (cycle loads w)) =
              (case color v of Inl err \<Rightarrow> [] | Inr c \<Rightarrow> [set_argv c]))"
proof -
  have t: "liquid_temp status = Inr v"
    using assms by (rule liquid_temp_well_formed)
  then show ?thesis
    using set_calls_cycle [of w out loads status v] by simp
qed

theorem reads_first_value_witness:
  "doc_h100i =
     PList (PDict [(''bus'', PStr ''hid''), (''description'', PStr ''Corsair H100i''),
                   (''status'',
                      PList [PDict [(''key'', PStr ''Liquid temperature''),
                                    (''value'', PFloat (Fin (71 / 2))),
                                    (''unit'', PStr ''C'')],
                             PDict [(''key'', PStr ''Fan 1 speed''),
                                    (''value'', PInt 1200),
                                    (''unit'', PStr ''rpm'')]])]
            # [PDict [(''status'', PList [PDict [(''value'', PInt 90)]])]]) \<and>
   liquid_temp doc_h100i = Inr (PFloat (Fin (71 / 2))) \<and>
   check_output (sample_world (Exited 0 out_h100i) (Exited 0 [])) query_argv = Inr out_h100i \<and>
   sample_loads out_h100i = Some doc_h100i \<and>
   set_calls (fst (cycle sample_loads (sample_world (Exited 0 out_h100i) (Exited 0 [])))) =
     [set_argv ''0080ff'']"
proof -
  let ?e = "[(''key'', PStr ''Liquid temperature''), (''value'', PFloat (Fin (71 / 2))),
             (''unit'', PStr ''C'')]"
  let ?fan = "PDict [(''key'', PStr ''Fan 1 speed''), (''value'', PInt 1200),
                     (''unit'', PStr ''rpm'')]"
  let ?b = "[(''bus'', PStr ''hid''), (''description'', PStr ''Corsair H100i''),
             (''status'', PList [PDict ?e, ?fan])]"
  let ?blocks = "[PDict [(''status'', PList [PDict [(''value'', PInt 90)]])]]"
  have a: "doc_h100i = PList (PDict ?b # ?blocks)"
    by (simp add: doc_h100i_def)
  have b: "map_of ?b ''status'' = Some (PList (PDict ?e # [?fan]))"
    by simp
  have c: "map_of ?e ''value'' = Some (PFloat (Fin (71 / 2)))"
    by simp
  have d: "check_output (sample_world (Exited 0 out_h100i) (Exited 0 [])) query_argv =
      Inr out_h100i"
    by (simp add: sample_defs check_output_def)
  have e: "sample_loads out_h100i = Some doc_h100i"
    by (simp add: sample_defs)
  have f: "color (PFloat (Fin (71 / 2))) = Inr ''0080ff''"
    by (simp add: color_def)
  show ?thesis
    using d e f
      reads_first_value [OF a b c, of "sample_world (Exited 0 out_h100i) (Exited 0 [])"
        out_h100i sample_loads]
    by (simp add: doc_h100i_def)
qed

text \<open>
  C7. A cycle that runs to its end performs exactly three things, in this order: the
  status query, the set command (with one of the two colours), and \<open>time.sleep(60)\<close>.
  The next cycle starts after the pause: when the loop later ends, at the first cycle \<open>m\<close>
  that raises, its events are those before cycle \<open>n\<close>, the three of cycle \<open>n\<close>, and then
  the events of the cycles after it, in order. Every cycle in between that runs to its
  end calls the set command again, whatever colour the cycle before it set.
\<close>

theorem successful_cycle:
  assumes "snd (cycle loads (ws n)) = Inr u"
  shows "\<exists>c. (c = ''0080ff'' \<or> c = ''ff0000'') \<and>
           fst (cycle loads (ws n)) = [Call query_argv, Call (set_argv c), Sleep 60] \<and>
           main_loop loads ws n tr =
             main_loop loads ws (Suc n) (tr @ [Call query_argv, Call (set_argv c), Sleep 60]) \<and>
           (\<forall>evs e. cycle loads (ws (Suc n)) = (evs, Inl e) \<longrightarrow>
              main_loop loads ws n tr =
                Some (e, Suc n, tr @ [Call query_argv, Call (set_argv c), Sleep 60] @ evs)) \<and>
           (\<forall>m e. n < m \<and> (\<forall>k. n < k \<and> k < m \<longrightarrow> snd (cycle loads (ws k)) = Inr ()) \<and>
                  snd (cycle loads (ws m)) = Inl e \<longrightarrow>
              main_loop loads ws n tr =
                Some (e, m, tr @ [Call query_argv, Call (set_argv c), Sleep 60] @
                        concat (map (\<lambda>k. fst (cycle loads (ws k))) [Suc n..<Suc m])) \<and>
              (\<forall>k. n < k \<and> k < m \<longrightarrow>
                 (\<exists>c'. (c' = ''0080ff'' \<or> c' = ''ff0000'') \<and>
                    fst (cycle loads (ws k)) =
                      [Call query_argv, Call (set_argv c'), Sleep 60])))"
proof -
  have shape: "\<exists>c. (c = ''0080ff'' \<or> c = ''ff0000'') \<and>
      cycle loads w = ([Call query_argv, Call (set_argv c), Sleep 60], Inr ())"
    if "snd (cycle loads w) = Inr ()" for w
  proof -
    have "\<exists>t c. color t = Inr c \<and>
        cycle loads w = ([Call query_argv, Call (set_argv c), Sleep 60], Inr ())"
      using that unfolding cycle_def by (auto split: sum.splits option.splits)
    then show ?thesis
      using color_cases by blast
  qed
  obtain c where col: "c = ''0080ff'' \<or> c = ''ff0000''"
    and cyc: "cycle loads (ws n) = ([Call query_argv, Call (set_argv c), Sleep 60], Inr ())"
    using shape [of "ws n"] assms by auto
  let ?evs = "[Call query_argv, Call (set_argv c), Sleep 60]"
  have step: "main_loop loads ws n tr = main_loop loads ws (Suc n) (tr @ ?evs)"
    using cyc by (rule main_loop_continues)
  have next_raises: "main_loop loads ws n tr = Some (e, Suc n, tr @ ?evs @ evs)"
    if "cycle loads (ws (Suc n)) = (evs, Inl e)" for evs e
  proof -
    have "main_loop loads ws (Suc n) (tr @ ?evs) = Some (e, Suc n, (tr @ ?evs) @ evs)"
      using that by (rule main_loop_raises)
    then show ?thesis
      using step by simp
  qed
  have later_raises: "main_loop loads ws n tr =
      Some (e, m, tr @ ?evs @ concat (map (\<lambda>k. fst (cycle loads (ws k))) [Suc n..<Suc m]))"
    if "n < m" and "\<forall>k. n < k \<and> k < m \<longrightarrow> snd (cycle loads (ws k)) = Inr ()"
      and "snd (cycle loads (ws m)) = Inl e" for m e
  proof -
    have "main_loop loads ws (Suc n) (tr @ ?evs) =
        Some (e, m, (tr @ ?evs) @ concat (map (\<lambda>k. fst (cycle loads (ws k))) [Suc n..<Suc m]))"
      using main_loop_trace [of "Suc n" m loads ws e "tr @ ?evs"] that by simp
    then show ?thesis
      using step by simp
  qed
  have between: "\<exists>c'. (c' = ''0080ff'' \<or> c' = ''ff0000'') \<and>
      fst (cycle loads (ws k)) = [Call query_argv, Call (set_argv c'), Sleep 60]"
    if "snd (cycle loads (ws k)) = Inr ()" for k
    using shape [of "ws k"] that by auto
  show ?thesis
    using col cyc step next_raises later_raises between
    by (intro exI [of _ c]) simp
qed

theorem successful_cycle_witness:
  "snd (cycle sample_loads (steady_worlds 0)) = Inr () \<and>
   fst (cycle sample_loads (steady_worlds 0)) =
     [Call query_argv, Call (set_argv ''0080ff''), Sleep 60] \<and>
   snd (cycle sample_loads (steady_worlds (Suc 0))) = Inr () \<and>
   fst (cycle sample_loads (steady_worlds (Suc 0))) =
     [Call query_argv, Call (set_argv ''0080ff''), Sleep 60] \<and>
   cycle sample_loads (steady_worlds (Suc (Suc 0))) = ([Call query_argv], Inl JSONDecodeError) \<and>
   main_loop sample_loads steady_worlds (Suc 0) [] =
     Some (JSONDecodeError, Suc (Suc 0),
           [Call query_argv, Call (set_argv ''0080ff''), Sleep 60, Call query_argv]) \<and>
   main_loop sample_loads steady_worlds 0 [] =
     Some (JSONDecodeError, Suc (Suc 0),
           [Call query_argv, Call (set_argv ''0080ff''), Sleep 60,
            Call query_argv, Call (set_argv ''0080ff''), Sleep 60,
            Call query_argv])"
proof -
  let ?evs = "[Call query_argv, Call (set_argv ''0080ff''), Sleep 60]"
  have c0: "cycle sample_loads (steady_worlds 0) = (?evs, Inr ())"
    by (simp add: sample_defs step_defs)
  have c1: "cycle sample_loads (steady_worlds (Suc 0)) = (?evs, Inr ())"
    by (simp add: sample_defs step_defs)
  have c2: "cycle sample_loads (steady_worlds (Suc (Suc 0))) =
      ([Call query_argv], Inl JSONDecodeError)"
    by (simp add: sample_defs step_defs)
  have s0: "snd (cycle sample_loads (steady_worlds 0)) = Inr ()"
    using c0 by simp
  have s1: "snd (cycle sample_loads (steady_worlds (Suc 0))) = Inr ()"
    using c1 by simp
  have between: "\<forall>k. 0 < k \<and> k < Suc (Suc 0) \<longrightarrow>
      snd (cycle sample_loads (steady_worlds k)) = Inr ()"
  proof (intro allI impI)
    fix k :: nat
    assume "0 < k \<and> k < Suc (Suc 0)"
    then have "k = Suc 0" by simp
    then show "snd (cycle sample_loads (steady_worlds k)) = Inr ()"
      using s1 by simp
  qed
  obtain c where f0: "fst (cycle sample_loads (steady_worlds 0)) =
        [Call query_argv, Call (set_argv c), Sleep 60]"
    and far: "\<forall>m e. 0 < m \<and>
        (\<forall>k. 0 < k \<and> k < m \<longrightarrow> snd (cycle sample_loads (steady_worlds k)) = Inr ()) \<and>
        snd (cycle sample_loads (steady_worlds m)) = Inl e \<longrightarrow>
        main_loop sample_loads steady_worlds 0 [] =
          Some (e, m, [] @ [Call query_argv, Call (set_argv c), Sleep 60] @
                  concat (map (\<lambda>k. fst (cycle sample_loads (steady_worlds k))) [Suc 0..<Suc m])) \<and>
        (\<forall>k. 0 < k \<and> k < m \<longrightarrow>
           (\<exists>c'. (c' = ''0080ff'' \<or> c' = ''ff0000'') \<and>
              fst (cycle sample_loads (steady_worlds k)) =
                [Call query_argv, Call (set_argv c'), Sleep 60]))"
    using successful_cycle [of sample_loads steady_worlds 0 "()" "[]"] s0 by blast
  have c: "c = ''0080ff''"
    using f0 c0 by (simp add: set_argv_def)
  have "main_loop sample_loads steady_worlds 0 [] =
      Some (JSONDecodeError, Suc (Suc 0),
        [] @ [Call query_argv, Call (set_argv c), Sleep 60] @
          concat (map (\<lambda>k. fst (cycle sample_loads (steady_worlds k)))
            [Suc 0..<Suc (Suc (Suc 0))]))"
  proof -
    have "0 < Suc (Suc 0) \<and>
        (\<forall>k. 0 < k \<and> k < Suc (Suc 0) \<longrightarrow>
           snd (cycle sample_loads (steady_worlds k)) = Inr ()) \<and>
        snd (cycle sample_loads (steady_worlds (Suc (Suc 0)))) = Inl JSONDecodeError"
      using between c2 by simp
    then show ?thesis
      using far by blast
  qed
  then have whole: "main_loop sample_loads steady_worlds 0 [] =
      Some (JSONDecodeError, Suc (Suc 0), ?evs @ ?evs @ [Call query_argv])"
    using c c1 c2 by (simp add: upt_conv_Cons)
  obtain c' where f1: "fst (cycle sample_loads (steady_worlds (Suc 0))) =
        [Call query_argv, Call (set_argv c'), Sleep 60]"
    and near: "\<forall>evs e. cycle sample_loads (steady_worlds (Suc (Suc 0))) = (evs, Inl e) \<longrightarrow>
        main_loop sample_loads steady_worlds (Suc 0) [] =
          Some (e, Suc (Suc 0), [] @ [Call query_argv, Call (set_argv c'), Sleep 60] @ evs)"
    using successful_cycle [of sample_loads steady_worlds "Suc 0" "()" "[]"] s1 by blast
  have c': "c' = ''0080ff''"
    using f1 c1 by (simp add: set_argv_def)
  have tail: "main_loop sample_loads steady_worlds (Suc 0) [] =
      Some (JSONDecodeError, Suc (Suc 0), ?evs @ [Call query_argv])"
    using near c2 c' by auto
  show ?thesis
    using c0 c1 c2 whole tail by simp
qed

text \<open>
  C8. Every call of a cycle other than the status query is the set command with a colour
  argument that is \<open>0080ff\<close> or \<open>ff0000\<close>: six hexadecimal digits and nothing else.
\<close>

theorem set_color_argument:
  assumes "Call argv \<in> set (fst (cycle loads w))" and "argv \<noteq> query_argv"
  shows "\<exists>c. argv = set_argv c \<and> last argv = c \<and> (c = ''0080ff'' \<or> c = ''ff0000'') \<and>
           length c = 6 \<and> (\<forall>ch \<in> set c. hex_digit ch)"
proof -
  obtain t c where col: "color t = Inr c" and "argv = set_argv c"
    using cycle_events [of loads w] assms by auto
  moreover have "last (set_argv c) = c"
    by (simp add: set_argv_def)
  moreover have "length c = 6 \<and> (\<forall>ch \<in> set c. hex_digit ch)"
    using color_cases [OF col] by (auto simp: hex_digit_def)
  ultimately show ?thesis
    using color_cases [OF col] by blast
qed

theorem set_color_argument_witness:
  "Call (set_argv ''ff0000'') \<in>
     set (fst (cycle sample_loads (sample_world (Exited 0 out_hot) (Exited 0 [])))) \<and>
   set_argv ''ff0000'' \<noteq> query_argv \<and>
   (\<exists>c. set_argv ''ff0000'' = set_argv c \<and> last (set_argv ''ff0000'') = c \<and>
        (c = ''0080ff'' \<or> c = ''ff0000'') \<and> length c = 6 \<and> (\<forall>ch \<in> set c. hex_digit ch))"
proof -
  have "cycle sample_loads (sample_world (Exited 0 out_hot) (Exited 0 [])) =
      ([Call query_argv, Call (set_argv ''ff0000''), Sleep 60], Inr ())"
    by (simp add: sample_defs step_defs)
  then have a: "Call (set_argv ''ff0000'') \<in>
      set (fst (cycle sample_loads (sample_world (Exited 0 out_hot) (Exited 0 []))))"
    by simp
  have b: "set_argv ''ff0000'' \<noteq> query_argv"
    by (simp add: set_argv_def query_argv_def)
  show ?thesis
    using a b set_color_argument [OF a b] by simp
qed

text \<open>
  C9. A NaN reading decides \<open>ff0000\<close>. The code tests only \<open>liquid_temp < 40\<close>; NaN is
  neither below 40.0 nor at or above it, and every float reading for which the test is
  false takes the red branch. A cycle whose status query prints NaN calls the set command
  with \<open>ff0000\<close>.
\<close>

theorem nan_is_red:
  "color (PFloat NaN) = Inr ''ff0000'' \<and>
   \<not> float_lt NaN (Fin 40) \<and> \<not> float_ge NaN (Fin 40) \<and>
   (\<not> float_lt x (Fin 40) \<longrightarrow> color (PFloat x) = Inr ''ff0000'') \<and>
   (check_output w query_argv = Inr out \<and> loads out = Some status \<and>
    liquid_temp status = Inr (PFloat NaN) \<longrightarrow>
      set_calls (fst (cycle loads w)) = [set_argv ''ff0000''])"
proof -
  have c: "color (PFloat NaN) = Inr ''ff0000''"
    by (simp add: color_def)
  then have "check_output w query_argv = Inr out \<and> loads out = Some status \<and>
    liquid_temp status = Inr (PFloat NaN) \<longrightarrow>
      set_calls (fst (cycle loads w)) = [set_argv ''ff0000'']"
    using set_calls_cycle [of w out loads status "PFloat NaN"] by simp
  then show ?thesis
    using c by (simp add: color_def)
qed

theorem nan_is_red_witness:
  "\<not> float_lt NaN (Fin 40) \<and> color (PFloat NaN) = Inr ''ff0000'' \<and>
   \<not> float_lt PInf (Fin 40) \<and> color (PFloat PInf) = Inr ''ff0000'' \<and>
   check_output (sample_world (Exited 0 out_nan) (Exited 0 [])) query_argv = Inr out_nan \<and>
   sample_loads out_nan = Some (doc (PFloat NaN)) \<and>
   liquid_temp (doc (PFloat NaN)) = Inr (PFloat NaN) \<and>
   set_calls (fst (cycle sample_loads (sample_world (Exited 0 out_nan) (Exited 0 [])))) =
     [set_argv ''ff0000'']"
proof -
  have a: "check_output (sample_world (Exited 0 out_nan) (Exited 0 [])) query_argv = Inr out_nan"
    by (simp add: sample_defs check_output_def)
  have b: "sample_loads out_nan = Some (doc (PFloat NaN))"
    by (simp add: sample_defs)
  have c: "liquid_temp (doc (PFloat NaN)) = Inr (PFloat NaN)"
    by (simp add: sample_defs liquid_temp_def)
  show ?thesis
    using a b c
      nan_is_red [of NaN "sample_world (Exited 0 out_nan) (Exited 0 [])" out_nan sample_loads
        "doc (PFloat NaN)"]
      nan_is_red [of PInf "sample_world (Exited 0 out_nan) (Exited 0 [])" out_nan sample_loads
        "doc (PFloat NaN)"]
    by simp
qed

text \<open>
  C10, as the code has it. When the extracted value is \<open>None\<close> (JSON null), a str, a
  list or a dict, the comparison raises \<open>TypeError\<close>: the cycle calls nothing but the
  status query and the loop ends on that cycle. A bool is an int to Python: JSON true and
  false compare as 1 and 0, both below 40, and the set command is called with \<open>0080ff\<close>.
\<close>

theorem non_numeric_reading:
  assumes "check_output (ws n) query_argv = Inr out"
    and "loads out = Some status"
    and "liquid_temp status = Inr v"
  shows "(v = PNone \<or> (\<exists>s. v = PStr s) \<or> (\<exists>xs. v = PList xs) \<or> (\<exists>d. v = PDict d) \<longrightarrow>
            cycle loads (ws n) = ([Call query_argv], Inl TypeError) \<and>
            set_calls (fst (cycle loads (ws n))) = [] \<and>
            main_loop loads ws n tr = Some (TypeError, n, tr @ [Call query_argv])) \<and>
         ((\<exists>b. v = PBool b) \<longrightarrow>
            set_calls (fst (cycle loads (ws n))) = [set_argv ''0080ff''])"
proof -
  have raises: "cycle loads (ws n) = ([Call query_argv], Inl TypeError) \<and>
      set_calls (fst (cycle loads (ws n))) = [] \<and>
      main_loop loads ws n tr = Some (TypeError, n, tr @ [Call query_argv])"
    if "v = PNone \<or> (\<exists>s. v = PStr s) \<or> (\<exists>xs. v = PList xs) \<or> (\<exists>d. v = PDict d)"
  proof -
    have "color v = Inl TypeError"
      using that by (auto simp: color_def)
    then have c: "cycle loads (ws n) = ([Call query_argv], Inl TypeError)"
      using cycle_compare_fails [of "ws n" out loads status v TypeError] assms by simp
    moreover have "main_loop loads ws n tr = Some (TypeError, n, tr @ [Call query_argv])"
      using c by (rule main_loop_raises)
    ultimately show ?thesis
      by simp
  qed
  have blue: "set_calls (fst (cycle loads (ws n))) = [set_argv ''0080ff'']"
    if "\<exists>b. v = PBool b"
  proof -
    have "color v = Inr ''0080ff''"
      using that by (auto simp: color_def)
    then show ?thesis
      using set_calls_cycle [of "ws n" out loads status v] assms by simp
  qed
  show ?thesis
    using raises blue by blast
qed

theorem non_numeric_reading_witness:
  "check_output (first_then (sample_world (Exited 0 out_null) (Exited 0 []))
                   (sample_world (Exited 0 out_true) (Exited 0 [])) 0) query_argv = Inr out_null \<and>
   sample_loads out_null = Some (doc PNone) \<and>
   liquid_temp (doc PNone) = Inr PNone \<and>
   main_loop sample_loads
     (first_then (sample_world (Exited 0 out_null) (Exited 0 []))
        (sample_world (Exited 0 out_true) (Exited 0 []))) 0 [] =
     Some (TypeError, 0, [Call query_argv]) \<and>
   check_output (first_then (sample_world (Exited 0 out_null) (Exited 0 []))
                   (sample_world (Exited 0 out_true) (Exited 0 [])) 1) query_argv = Inr out_true \<and>
   sample_loads out_true = Some (doc (PBool True)) \<and>
   liquid_temp (doc (PBool True)) = Inr (PBool True) \<and>
   set_calls (fst (cycle sample_loads
       (first_then (sample_world (Exited 0 out_null) (Exited 0 []))
          (sample_world (Exited 0 out_true) (Exited 0 [])) 1))) = [set_argv ''0080ff'']"
proof -
  let ?ws = "first_then (sample_world (Exited 0 out_null) (Exited 0 []))
               (sample_world (Exited 0 out_true) (Exited 0 []))"
  have a: "check_output (?ws 0) query_argv = Inr out_null"
    by (simp add: sample_defs check_output_def)
  have b: "sample_loads out_null = Some (doc PNone)"
    by (simp add: sample_defs)
  have c: "liquid_temp (doc PNone) = Inr PNone"
    by (simp add: sample_defs liquid_temp_def)
  have d: "check_output (?ws 1) query_argv = Inr out_true"
    by (simp add: sample_defs check_output_def)
  have e: "sample_loads out_true = Some (doc (PBool True))"
    by (simp add: sample_defs)
  have f: "liquid_temp (doc (PBool True)) = Inr (PBool True)"
    by (simp add: sample_defs liquid_temp_def)
  show ?thesis
    using a b c d e f
      non_numeric_reading [of ?ws 0 out_null sample_loads "doc PNone" PNone "[]"]
      non_numeric_reading [of ?ws 1 out_true sample_loads "doc (PBool True)" "PBool True" "[]"]
    by auto
qed

text \<open>
  C10, as stated, fails for a JSON boolean: the value \<open>true\<close> is not a number, yet the
  comparison does not raise, the colour \<open>0080ff\<close> is derived from it and the set command
  is called.
\<close>

theorem boolean_reading_sets_color:
  "sample_loads out_true = Some (doc (PBool True)) \<and>
   liquid_temp (doc (PBool True)) = Inr (PBool True) \<and>
   color (PBool True) = Inr ''0080ff'' \<and>
   cycle sample_loads (sample_world (Exited 0 out_true) (Exited 0 [])) =
     ([Call query_argv, Call (set_argv ''0080ff''), Sleep 60], Inr ())"
  by (simp add: sample_defs step_defs)

end
